theory Spec2Isabelle
  imports Complex_Main
begin

section \<open>Exceptions and HTTP responses\<close>

text \<open>
  The handlers raise \<^verbatim>\<open>HTTPException(status_code, detail, headers)\<close>. The detail
  strings of the source are Russian-language messages; the model keeps one tag per
  message, in the order in which the messages appear in the source:
  \<^item> \<open>BadCredentials\<close>: the detail of the 401 raised by \<^verbatim>\<open>login\<close> (main.py, line 49);
  \<^item> \<open>EmailRegistered\<close>, \<open>UsernameTaken\<close>: the two 400s of \<^verbatim>\<open>create_user\<close>
    (users.py, lines 17 and 21);
  \<^item> \<open>InsufficientRights\<close>: the 403 of the update and delete handlers;
  \<^item> \<open>UserNotFound\<close>, \<open>ItemNotFound\<close>: the 404s of users.py and items.py;
  \<^item> \<open>InvalidCredentials\<close>: the 401 of the authentication middleware, which is not
    under src/.
  An exception that is no \<^verbatim>\<open>HTTPException\<close> is not handled by the application: Python's
  \<^verbatim>\<open>NameError\<close> for a name that is bound nowhere, the error that FastAPI raises when a
  handler returns \<^verbatim>\<open>None\<close> under a \<^verbatim>\<open>response_model\<close>, and the \<open>Conflict\<close> failure
  that the spec gives the persistence layer.
\<close>

datatype detail =
    BadCredentials
  | EmailRegistered
  | UsernameTaken
  | InsufficientRights
  | UserNotFound
  | ItemNotFound
  | InvalidCredentials

datatype exn =
    HTTPException nat detail "(string \<times> string) list"
  | NameError string
  | ResponseValidationError
  | Conflict

type_synonym 'a result = "exn + 'a"

section \<open>schemas.py\<close>

text \<open>
  Each pydantic class is a record; a field typed \<^verbatim>\<open>Optional[T] = None\<close> is a
  \<open>T option\<close>. Record fields share one name space in HOL, so every field carries
  the initials of its class. \<^verbatim>\<open>price\<close> is a Python float that the code only stores
  and returns; no arithmetic is done on it.
\<close>

record UserCreate =
  uc_email :: string
  uc_username :: string
  uc_full_name :: "string option"
  uc_password :: string

record UserUpdate =
  uu_email :: "string option"
  uu_username :: "string option"
  uu_full_name :: "string option"
  uu_password :: "string option"

record User =
  us_email :: string
  us_username :: string
  us_full_name :: "string option"
  us_id :: int
  us_is_active :: bool
  us_created_at :: nat
  us_updated_at :: "nat option"

record ItemCreate =
  ic_title :: string
  ic_description :: "string option"
  ic_price :: "real option"

record ItemUpdate =
  iu_title :: "string option"
  iu_description :: "string option"
  iu_price :: "real option"
  iu_is_available :: "bool option"

record Item =
  it_title :: string
  it_description :: "string option"
  it_price :: "real option"
  it_id :: int
  it_owner_id :: int
  it_is_available :: bool
  it_created_at :: nat
  it_updated_at :: "nat option"
  it_owner :: "User option"

record LoginRequest =
  lr_username :: string
  lr_password :: string

section \<open>The persistence layer (app.models, app.crud)\<close>

text \<open>
  Modelled from the spec: the ORM classes of app/models.py, which is not under src/.
  The rows carry the fields of section 3 of the spec; the handlers under src/ read
  \<^verbatim>\<open>id\<close>, \<^verbatim>\<open>username\<close> and \<^verbatim>\<open>owner_id\<close> from them. A password hash is the
  one-way transform of section 4.1 and is kept abstract: \<open>PwHash p\<close> stands for
  the hash of the plaintext \<open>p\<close>.
\<close>

datatype pwhash = PwHash string

record user_row =
  u_id :: int
  u_email :: string
  u_username :: string
  u_full_name :: "string option"
  u_hashed_password :: pwhash
  u_is_active :: bool
  u_created_at :: nat
  u_updated_at :: "nat option"

record item_row =
  i_id :: int
  i_title :: string
  i_description :: "string option"
  i_price :: "real option"
  i_is_available :: bool
  i_owner_id :: int
  i_created_at :: nat
  i_updated_at :: "nat option"

text \<open>
  The database session: the two tables, in insertion order, and the next identifier
  of each. The clock is passed to every operation that stamps a row.
\<close>

record db =
  db_users :: "user_row list"
  db_items :: "item_row list"
  db_next_user_id :: int
  db_next_item_id :: int

text \<open>Modelled from the spec: the credential store of section 4.1 (app/auth.py or
  app/crud.py, not under src/).\<close>

definition get_password_hash :: "string \<Rightarrow> pwhash" where
  "get_password_hash password = PwHash password"

definition verify_password :: "string \<Rightarrow> pwhash \<Rightarrow> bool" where
  "verify_password password h = (h = get_password_hash password)"

text \<open>Modelled from the spec: the lookups of app/crud.py, which is not under src/
  (\<open>get(id) -> User | fails(NotFound)\<close>, and the lookups by email and by username
  that registration and authentication use).\<close>

definition crud_get_user :: "db \<Rightarrow> int \<Rightarrow> user_row option" where
  "crud_get_user d user_id = find (\<lambda>u. u_id u = user_id) (db_users d)"

definition crud_get_user_by_email :: "db \<Rightarrow> string \<Rightarrow> user_row option" where
  "crud_get_user_by_email d email = find (\<lambda>u. u_email u = email) (db_users d)"

definition crud_get_user_by_username :: "db \<Rightarrow> string \<Rightarrow> user_row option" where
  "crud_get_user_by_username d username = find (\<lambda>u. u_username u = username) (db_users d)"

definition crud_get_item :: "db \<Rightarrow> int \<Rightarrow> item_row option" where
  "crud_get_item d item_id = find (\<lambda>i. i_id i = item_id) (db_items d)"

text \<open>Modelled from the spec: \<^verbatim>\<open>crud.authenticate_user\<close>, not under src/
  (section 4.5: looks up by username, verifies the password; the two failures are
  reported identically).\<close>

definition crud_authenticate_user :: "db \<Rightarrow> string \<Rightarrow> string \<Rightarrow> user_row option" where
  "crud_authenticate_user d username password =
     (case crud_get_user_by_username d username of
        None \<Rightarrow> None
      | Some user \<Rightarrow>
          if verify_password password (u_hashed_password user) then Some user else None)"

section \<open>The token service and the authentication middleware (app.auth)\<close>

text \<open>
  Modelled from the spec: app/auth.py, which is not under src/. Section 4.2: a token
  is signed with the process-wide key and embeds the subject and an absolute expiry
  instant; validation fails when the signature is invalid, the token is malformed, or
  the expiry has passed. A bearer credential is therefore either a signed token, with
  the key that signed it, or a string that does not decode. Time is in seconds.
  The signing key and \<^verbatim>\<open>ACCESS_TOKEN_EXPIRE_MINUTES\<close> are configuration (section 9).
\<close>

datatype access_token =
    Signed string string nat
  | Malformed string

record config =
  SECRET_KEY :: string
  ACCESS_TOKEN_EXPIRE_MINUTES :: nat

definition timedelta_minutes :: "nat \<Rightarrow> nat" where
  "timedelta_minutes m = 60 * m"

definition create_access_token :: "config \<Rightarrow> string \<Rightarrow> nat \<Rightarrow> nat \<Rightarrow> access_token" where
  "create_access_token cfg sub expires_delta now = Signed (SECRET_KEY cfg) sub (now + expires_delta)"

fun decode_token :: "config \<Rightarrow> nat \<Rightarrow> access_token \<Rightarrow> string option" where
  "decode_token cfg now (Malformed s) = None"
| "decode_token cfg now (Signed key sub expiry) =
     (if key = SECRET_KEY cfg \<and> now \<le> expiry then Some sub else None)"

definition credentials_exception :: exn where
  "credentials_exception = HTTPException 401 InvalidCredentials [(''WWW-Authenticate'', ''Bearer'')]"

text \<open>Section 4.3: the token is resolved by the token service and the subject is
  looked up by username; a missing, invalid or expired token, and a subject that no
  longer exists, all fail with the same 401 and its challenge.\<close>

definition get_current_user :: "config \<Rightarrow> db \<Rightarrow> nat \<Rightarrow> access_token option \<Rightarrow> user_row result" where
  "get_current_user cfg d now credential =
     (case credential of
        None \<Rightarrow> Inl credentials_exception
      | Some token \<Rightarrow>
          (case decode_token cfg now token of
             None \<Rightarrow> Inl credentials_exception
           | Some username \<Rightarrow>
               (case crud_get_user_by_username d username of
                  None \<Rightarrow> Inl credentials_exception
                | Some user \<Rightarrow> Inr user)))"

section \<open>main.py\<close>

text \<open>
  The names that main.py binds at module level: its imports (lines 1 to 11) and the
  objects it defines. A name that a function body reads is looked up here (no
  function of main.py has a local or a parameter called \<^verbatim>\<open>status\<close>, and it is no
  builtin); a name that is not bound raises \<^verbatim>\<open>NameError\<close> when the expression is
  evaluated.
\<close>

definition main_globals :: "string list" where
  "main_globals =
     [''FastAPI'', ''Depends'', ''HTTPException'',
      ''CORSMiddleware'',
      ''StaticFiles'',
      ''HTMLResponse'', ''JSONResponse'',
      ''Session'',
      ''engine'', ''get_db'',
      ''models'', ''schemas'', ''crud'',
      ''users'', ''items'',
      ''create_access_token'', ''get_current_user'', ''ACCESS_TOKEN_EXPIRE_MINUTES'',
      ''timedelta'',
      ''os'',
      ''app'', ''login'', ''read_root'', ''get_api_info'', ''health_check'']"

definition load_global :: "string list \<Rightarrow> string \<Rightarrow> unit result" where
  "load_global globals name = (if name \<in> set globals then Inr () else Inl (NameError name))"

record Token =
  access_token :: access_token
  token_type :: string

text \<open>
  \<^verbatim>\<open>login\<close> (main.py, lines 40 to 56). When \<^verbatim>\<open>crud.authenticate_user\<close> returns nothing,
  the \<^verbatim>\<open>raise\<close> statement first evaluates the arguments of the \<^verbatim>\<open>HTTPException\<close> call,
  the first of which reads the global \<^verbatim>\<open>status\<close>.
\<close>

definition login :: "config \<Rightarrow> LoginRequest \<Rightarrow> db \<Rightarrow> nat \<Rightarrow> Token result" where
  "login cfg login_data d now =
     (case crud_authenticate_user d (lr_username login_data) (lr_password login_data) of
        None \<Rightarrow>
          (case load_global main_globals ''status'' of
             Inl e \<Rightarrow> Inl e
           | Inr _ \<Rightarrow> Inl (HTTPException 401 BadCredentials [(''WWW-Authenticate'', ''Bearer'')]))
      | Some user \<Rightarrow>
          (let access_token_expires = timedelta_minutes (ACCESS_TOKEN_EXPIRE_MINUTES cfg);
               access_token = create_access_token cfg (u_username user) access_token_expires now
           in Inr \<lparr>access_token = access_token, token_type = ''bearer''\<rparr>))"

section \<open>The writes and the listings of app.crud\<close>

text \<open>A row is found by its primary key; the first row with the key is the one an
  update rewrites or a delete removes.\<close>

fun update_first :: "('a \<Rightarrow> bool) \<Rightarrow> ('a \<Rightarrow> 'a) \<Rightarrow> 'a list \<Rightarrow> 'a list" where
  "update_first P f [] = []"
| "update_first P f (x # xs) = (if P x then f x # xs else x # update_first P f xs)"

fun remove_first :: "('a \<Rightarrow> bool) \<Rightarrow> 'a list \<Rightarrow> 'a list" where
  "remove_first P [] = []"
| "remove_first P (x # xs) = (if P x then xs else x # remove_first P xs)"

text \<open>Modelled from the spec: \<^verbatim>\<open>crud.create_user\<close>, not under src/ (section 4.5:
  hashes the password, persists, returns the created record; section 3: the id is
  assigned on creation, \<open>is_active\<close> defaults to true, \<open>created_at\<close> is set).\<close>

definition crud_create_user :: "db \<Rightarrow> UserCreate \<Rightarrow> nat \<Rightarrow> user_row \<times> db" where
  "crud_create_user d user now =
     (let db_user = \<lparr>u_id = db_next_user_id d,
                     u_email = uc_email user,
                     u_username = uc_username user,
                     u_full_name = uc_full_name user,
                     u_hashed_password = get_password_hash (uc_password user),
                     u_is_active = True,
                     u_created_at = now,
                     u_updated_at = None\<rparr>
      in (db_user, d\<lparr>db_users := db_users d @ [db_user],
                      db_next_user_id := db_next_user_id d + 1\<rparr>))"

text \<open>Modelled from the spec: \<^verbatim>\<open>crud.update_user\<close>, not under src/ (section 4.5: any
  subset of email, username, full_name and password may be supplied; the uniqueness
  of email and username is checked again against the other users when they change;
  the password is hashed again when supplied; \<open>updated_at\<close> is refreshed). The
  handler under src/ expects \<^verbatim>\<open>None\<close> for a user that does not exist.\<close>

definition taken_by_other :: "db \<Rightarrow> int \<Rightarrow> (user_row \<Rightarrow> string) \<Rightarrow> string option \<Rightarrow> string \<Rightarrow> bool" where
  "taken_by_other d user_id field new old =
     (case new of
        None \<Rightarrow> False
      | Some v \<Rightarrow> v \<noteq> old \<and> list_ex (\<lambda>u. u_id u \<noteq> user_id \<and> field u = v) (db_users d))"

definition apply_user_update :: "UserUpdate \<Rightarrow> nat \<Rightarrow> user_row \<Rightarrow> user_row" where
  "apply_user_update user_update now db_user =
     db_user\<lparr>u_email := (case uu_email user_update of None \<Rightarrow> u_email db_user | Some v \<Rightarrow> v),
             u_username := (case uu_username user_update of None \<Rightarrow> u_username db_user | Some v \<Rightarrow> v),
             u_full_name := (case uu_full_name user_update of None \<Rightarrow> u_full_name db_user | Some v \<Rightarrow> Some v),
             u_hashed_password := (case uu_password user_update of
                                     None \<Rightarrow> u_hashed_password db_user
                                   | Some v \<Rightarrow> get_password_hash v),
             u_updated_at := Some now\<rparr>"

definition crud_update_user :: "db \<Rightarrow> int \<Rightarrow> UserUpdate \<Rightarrow> nat \<Rightarrow> (user_row option) result \<times> db" where
  "crud_update_user d user_id user_update now =
     (case crud_get_user d user_id of
        None \<Rightarrow> (Inr None, d)
      | Some db_user \<Rightarrow>
          if taken_by_other d user_id u_email (uu_email user_update) (u_email db_user) then (Inl Conflict, d)
          else if taken_by_other d user_id u_username (uu_username user_update) (u_username db_user)
          then (Inl Conflict, d)
          else (Inr (Some (apply_user_update user_update now db_user)),
                d\<lparr>db_users := update_first (\<lambda>u. u_id u = user_id)
                                  (apply_user_update user_update now) (db_users d)\<rparr>))"

text \<open>Modelled from the spec: \<^verbatim>\<open>crud.delete_user\<close>, not under src/ (section 4.5:
  returns the snapshot of the deleted record; section 3: the user's items stay).\<close>

definition crud_delete_user :: "db \<Rightarrow> int \<Rightarrow> user_row option \<times> db" where
  "crud_delete_user d user_id =
     (case crud_get_user d user_id of
        None \<Rightarrow> (None, d)
      | Some db_user \<Rightarrow>
          (Some db_user, d\<lparr>db_users := remove_first (\<lambda>u. u_id u = user_id) (db_users d)\<rparr>))"

text \<open>Modelled from the spec: the listings of app/crud.py, not under src/ (sections
  4.5 and 4.6: offset and limit pagination over the rows by ascending id). The spec
  says nothing of a negative \<open>skip\<close> or \<open>limit\<close>, which the handlers' \<^verbatim>\<open>int\<close>
  parameters admit; the model counts them as 0 and no theorem below relies on it.\<close>

definition paginate :: "int \<Rightarrow> int \<Rightarrow> 'a list \<Rightarrow> 'a list" where
  "paginate skip limit rows = take (nat limit) (drop (nat skip) rows)"

definition crud_get_users :: "db \<Rightarrow> int \<Rightarrow> int \<Rightarrow> user_row list" where
  "crud_get_users d skip limit = paginate skip limit (sort_key u_id (db_users d))"

text \<open>Modelled from the spec: the search of \<^verbatim>\<open>crud.get_items\<close> (section 4.6: a
  case-insensitive substring match against title or description). Strings are byte
  lists here, and the case of the ASCII letters is what is folded.\<close>

definition lower_char :: "char \<Rightarrow> char" where
  "lower_char c =
     (let n = (of_char c :: nat) in if 65 \<le> n \<and> n \<le> 90 then char_of (n + 32) else c)"

definition lower :: "string \<Rightarrow> string" where
  "lower s = map lower_char s"

fun starts_with :: "string \<Rightarrow> string \<Rightarrow> bool" where
  "starts_with [] t = True"
| "starts_with (c # cs) [] = False"
| "starts_with (c # cs) (x # xs) = (c = x \<and> starts_with cs xs)"

fun contains :: "string \<Rightarrow> string \<Rightarrow> bool" where
  "contains s [] = (s = [])"
| "contains s (x # xs) = (starts_with s (x # xs) \<or> contains s xs)"

definition icontains :: "string \<Rightarrow> string \<Rightarrow> bool" where
  "icontains s t = contains (lower s) (lower t)"

definition search_matches :: "string option \<Rightarrow> item_row \<Rightarrow> bool" where
  "search_matches search i =
     (case search of
        None \<Rightarrow> True
      | Some s \<Rightarrow>
          icontains s (i_title i)
          \<or> (case i_description i of None \<Rightarrow> False | Some t \<Rightarrow> icontains s t))"

definition crud_get_items :: "db \<Rightarrow> int \<Rightarrow> int \<Rightarrow> string option \<Rightarrow> item_row list" where
  "crud_get_items d skip limit search =
     paginate skip limit (filter (search_matches search) (sort_key i_id (db_items d)))"

definition crud_get_user_items :: "db \<Rightarrow> int \<Rightarrow> int \<Rightarrow> int \<Rightarrow> item_row list" where
  "crud_get_user_items d user_id skip limit =
     paginate skip limit (filter (\<lambda>i. i_owner_id i = user_id) (sort_key i_id (db_items d)))"

text \<open>Modelled from the spec: \<^verbatim>\<open>crud.create_user_item\<close>, not under src/ (section
  4.6: the owner is the caller that the handler passes as \<^verbatim>\<open>user_id\<close>;
  \<open>is_available\<close> defaults to true).\<close>

definition crud_create_user_item :: "db \<Rightarrow> ItemCreate \<Rightarrow> int \<Rightarrow> nat \<Rightarrow> item_row \<times> db" where
  "crud_create_user_item d item user_id now =
     (let db_item = \<lparr>i_id = db_next_item_id d,
                     i_title = ic_title item,
                     i_description = ic_description item,
                     i_price = ic_price item,
                     i_is_available = True,
                     i_owner_id = user_id,
                     i_created_at = now,
                     i_updated_at = None\<rparr>
      in (db_item, d\<lparr>db_items := db_items d @ [db_item],
                      db_next_item_id := db_next_item_id d + 1\<rparr>))"

text \<open>Modelled from the spec: \<^verbatim>\<open>crud.update_item\<close> and \<^verbatim>\<open>crud.delete_item\<close>, not
  under src/ (section 4.6: any subset of title, description, price and is_available
  may change; \<open>updated_at\<close> is refreshed; \<open>owner_id\<close> never changes; a delete
  returns the deleted snapshot).\<close>

definition apply_item_update :: "ItemUpdate \<Rightarrow> nat \<Rightarrow> item_row \<Rightarrow> item_row" where
  "apply_item_update item_update now db_item =
     db_item\<lparr>i_title := (case iu_title item_update of None \<Rightarrow> i_title db_item | Some v \<Rightarrow> v),
             i_description := (case iu_description item_update of
                                 None \<Rightarrow> i_description db_item
                               | Some v \<Rightarrow> Some v),
             i_price := (case iu_price item_update of None \<Rightarrow> i_price db_item | Some v \<Rightarrow> Some v),
             i_is_available := (case iu_is_available item_update of
                                  None \<Rightarrow> i_is_available db_item
                                | Some v \<Rightarrow> v),
             i_updated_at := Some now\<rparr>"

definition crud_update_item :: "db \<Rightarrow> int \<Rightarrow> ItemUpdate \<Rightarrow> nat \<Rightarrow> item_row option \<times> db" where
  "crud_update_item d item_id item_update now =
     (case crud_get_item d item_id of
        None \<Rightarrow> (None, d)
      | Some db_item \<Rightarrow>
          (Some (apply_item_update item_update now db_item),
           d\<lparr>db_items := update_first (\<lambda>i. i_id i = item_id)
                             (apply_item_update item_update now) (db_items d)\<rparr>))"

definition crud_delete_item :: "db \<Rightarrow> int \<Rightarrow> item_row option \<times> db" where
  "crud_delete_item d item_id =
     (case crud_get_item d item_id of
        None \<Rightarrow> (None, d)
      | Some db_item \<Rightarrow>
          (Some db_item, d\<lparr>db_items := remove_first (\<lambda>i. i_id i = item_id) (db_items d)\<rparr>))"

section \<open>users.py\<close>

text \<open>
  Each handler takes the session and returns it with its result: the value it
  returns, or the exception it raises. A query parameter with a default is an
  option, and the handler's signature supplies the default. A handler that declares
  \<^verbatim>\<open>Depends(get_current_user)\<close> takes the resolved user as \<open>current_user\<close>.
\<close>

definition create_user :: "UserCreate \<Rightarrow> db \<Rightarrow> nat \<Rightarrow> user_row result \<times> db" where
  "create_user user d now =
     (case crud_get_user_by_email d (uc_email user) of
        Some db_user \<Rightarrow> (Inl (HTTPException 400 EmailRegistered []), d)
      | None \<Rightarrow>
          (case crud_get_user_by_username d (uc_username user) of
             Some db_user \<Rightarrow> (Inl (HTTPException 400 UsernameTaken []), d)
           | None \<Rightarrow> (case crud_create_user d user now of (db_user, d') \<Rightarrow> (Inr db_user, d'))))"

definition read_users :: "int option \<Rightarrow> int option \<Rightarrow> db \<Rightarrow> user_row list" where
  "read_users skip limit d =
     (let skip = (case skip of None \<Rightarrow> 0 | Some v \<Rightarrow> v);
          limit = (case limit of None \<Rightarrow> 100 | Some v \<Rightarrow> v)
      in crud_get_users d skip limit)"

definition read_user_me :: "user_row \<Rightarrow> user_row" where
  "read_user_me current_user = current_user"

definition read_user :: "int \<Rightarrow> db \<Rightarrow> user_row result" where
  "read_user user_id d =
     (case crud_get_user d user_id of
        None \<Rightarrow> Inl (HTTPException 404 UserNotFound [])
      | Some db_user \<Rightarrow> Inr db_user)"

definition update_user :: "int \<Rightarrow> UserUpdate \<Rightarrow> db \<Rightarrow> nat \<Rightarrow> user_row \<Rightarrow> user_row result \<times> db" where
  "update_user user_id user_update d now current_user =
     (if u_id current_user \<noteq> user_id then (Inl (HTTPException 403 InsufficientRights []), d)
      else
        (case crud_update_user d user_id user_update now of
           (Inl e, d') \<Rightarrow> (Inl e, d')
         | (Inr None, d') \<Rightarrow> (Inl (HTTPException 404 UserNotFound []), d')
         | (Inr (Some db_user), d') \<Rightarrow> (Inr db_user, d')))"

definition delete_user :: "int \<Rightarrow> db \<Rightarrow> user_row \<Rightarrow> user_row result \<times> db" where
  "delete_user user_id d current_user =
     (if u_id current_user \<noteq> user_id then (Inl (HTTPException 403 InsufficientRights []), d)
      else
        (case crud_delete_user d user_id of
           (None, d') \<Rightarrow> (Inl (HTTPException 404 UserNotFound []), d')
         | (Some db_user, d') \<Rightarrow> (Inr db_user, d')))"

section \<open>items.py\<close>

definition create_item :: "ItemCreate \<Rightarrow> db \<Rightarrow> nat \<Rightarrow> user_row \<Rightarrow> item_row \<times> db" where
  "create_item item d now current_user = crud_create_user_item d item (u_id current_user) now"

definition read_items :: "int option \<Rightarrow> int option \<Rightarrow> string option \<Rightarrow> db \<Rightarrow> item_row list" where
  "read_items skip limit search d =
     (let skip = (case skip of None \<Rightarrow> 0 | Some v \<Rightarrow> v);
          limit = (case limit of None \<Rightarrow> 100 | Some v \<Rightarrow> v)
      in crud_get_items d skip limit search)"

definition read_user_items :: "int option \<Rightarrow> int option \<Rightarrow> db \<Rightarrow> user_row \<Rightarrow> item_row list" where
  "read_user_items skip limit d current_user =
     (let skip = (case skip of None \<Rightarrow> 0 | Some v \<Rightarrow> v);
          limit = (case limit of None \<Rightarrow> 100 | Some v \<Rightarrow> v)
      in crud_get_user_items d (u_id current_user) skip limit)"

definition read_item :: "int \<Rightarrow> db \<Rightarrow> item_row result" where
  "read_item item_id d =
     (case crud_get_item d item_id of
        None \<Rightarrow> Inl (HTTPException 404 ItemNotFound [])
      | Some db_item \<Rightarrow> Inr db_item)"

definition update_item :: "int \<Rightarrow> ItemUpdate \<Rightarrow> db \<Rightarrow> nat \<Rightarrow> user_row \<Rightarrow> (item_row option) result \<times> db" where
  "update_item item_id item_update d now current_user =
     (case crud_get_item d item_id of
        None \<Rightarrow> (Inl (HTTPException 404 ItemNotFound []), d)
      | Some db_item \<Rightarrow>
          if i_owner_id db_item \<noteq> u_id current_user
          then (Inl (HTTPException 403 InsufficientRights []), d)
          else (case crud_update_item d item_id item_update now of (r, d') \<Rightarrow> (Inr r, d')))"

definition delete_item :: "int \<Rightarrow> db \<Rightarrow> user_row \<Rightarrow> (item_row option) result \<times> db" where
  "delete_item item_id d current_user =
     (case crud_get_item d item_id of
        None \<Rightarrow> (Inl (HTTPException 404 ItemNotFound []), d)
      | Some db_item \<Rightarrow>
          if i_owner_id db_item \<noteq> u_id current_user
          then (Inl (HTTPException 403 InsufficientRights []), d)
          else (case crud_delete_item d item_id of (r, d') \<Rightarrow> (Inr r, d')))"

section \<open>The application: routes, dependencies and responses\<close>











text \<open>The requests of the thirteen routes of the core, with their parameters as
  FastAPI hands them to the handlers, and the endpoint that serves each.\<close>

datatype request =
    Req_create_user UserCreate
  | Req_read_users "int option" "int option"
  | Req_read_user_me
  | Req_read_user int
  | Req_update_user int UserUpdate
  | Req_delete_user int
  | Req_create_item ItemCreate
  | Req_read_items "int option" "int option" "string option"
  | Req_read_user_items "int option" "int option"
  | Req_read_item int
  | Req_update_item int ItemUpdate
  | Req_delete_item int
  | Req_login LoginRequest


text \<open>The \<^verbatim>\<open>response_model\<close> of a route builds the response from the attributes of
  the row the handler returns: \<^verbatim>\<open>schemas.User\<close> has no field for the password or
  its hash, and \<^verbatim>\<open>schemas.Item\<close> expands the owner of the item.\<close>

definition to_User :: "user_row \<Rightarrow> User" where
  "to_User u =
     \<lparr>us_email = u_email u, us_username = u_username u, us_full_name = u_full_name u,
      us_id = u_id u, us_is_active = u_is_active u, us_created_at = u_created_at u,
      us_updated_at = u_updated_at u\<rparr>"

definition to_Item :: "db \<Rightarrow> item_row \<Rightarrow> Item" where
  "to_Item d i =
     \<lparr>it_title = i_title i, it_description = i_description i, it_price = i_price i,
      it_id = i_id i, it_owner_id = i_owner_id i, it_is_available = i_is_available i,
      it_created_at = i_created_at i, it_updated_at = i_updated_at i,
      it_owner = map_option to_User (crud_get_user d (i_owner_id i))\<rparr>"

datatype body =
    UserBody User
  | UserListBody "User list"
  | ItemBody Item
  | ItemListBody "Item list"
  | TokenBody Token

record response =
  status_code :: nat
  body :: body

text \<open>A dependency is resolved before the handler runs; when it raises, the handler
  is not called and the session is untouched.\<close>

definition with_current_user ::
  "config \<Rightarrow> db \<Rightarrow> nat \<Rightarrow> access_token option \<Rightarrow> (user_row \<Rightarrow> response result \<times> db)
   \<Rightarrow> response result \<times> db" where
  "with_current_user cfg d now credential handler =
     (case get_current_user cfg d now credential of
        Inl e \<Rightarrow> (Inl e, d)
      | Inr current_user \<Rightarrow> handler current_user)"

definition user_response :: "nat \<Rightarrow> user_row result \<times> db \<Rightarrow> response result \<times> db" where
  "user_response code r =
     (case r of
        (Inl e, d') \<Rightarrow> (Inl e, d')
      | (Inr u, d') \<Rightarrow> (Inr \<lparr>status_code = code, body = UserBody (to_User u)\<rparr>, d'))"

definition item_response :: "nat \<Rightarrow> (item_row option) result \<times> db \<Rightarrow> response result \<times> db" where
  "item_response code r =
     (case r of
        (Inl e, d') \<Rightarrow> (Inl e, d')
      | (Inr None, d') \<Rightarrow> (Inl ResponseValidationError, d')
      | (Inr (Some i), d') \<Rightarrow> (Inr \<lparr>status_code = code, body = ItemBody (to_Item d' i)\<rparr>, d'))"

fun app :: "config \<Rightarrow> db \<Rightarrow> nat \<Rightarrow> access_token option \<Rightarrow> request \<Rightarrow> response result \<times> db" where
  "app cfg d now credential (Req_create_user user) =
     user_response 201 (create_user user d now)"
| "app cfg d now credential (Req_read_users skip limit) =
     (Inr \<lparr>status_code = 200, body = UserListBody (map to_User (read_users skip limit d))\<rparr>, d)"
| "app cfg d now credential Req_read_user_me =
     with_current_user cfg d now credential
       (\<lambda>current_user. user_response 200 (Inr (read_user_me current_user), d))"
| "app cfg d now credential (Req_read_user user_id) =
     user_response 200 (read_user user_id d, d)"
| "app cfg d now credential (Req_update_user user_id user_update) =
     with_current_user cfg d now credential
       (\<lambda>current_user. user_response 200 (update_user user_id user_update d now current_user))"
| "app cfg d now credential (Req_delete_user user_id) =
     with_current_user cfg d now credential
       (\<lambda>current_user. user_response 200 (delete_user user_id d current_user))"
| "app cfg d now credential (Req_create_item item) =
     with_current_user cfg d now credential
       (\<lambda>current_user.
          case create_item item d now current_user of
            (db_item, d') \<Rightarrow> item_response 201 (Inr (Some db_item), d'))"
| "app cfg d now credential (Req_read_items skip limit search) =
     (Inr \<lparr>status_code = 200,
           body = ItemListBody (map (to_Item d) (read_items skip limit search d))\<rparr>, d)"
| "app cfg d now credential (Req_read_user_items skip limit) =
     with_current_user cfg d now credential
       (\<lambda>current_user.
          (Inr \<lparr>status_code = 200,
                body = ItemListBody (map (to_Item d) (read_user_items skip limit d current_user))\<rparr>,
           d))"
| "app cfg d now credential (Req_read_item item_id) =
     item_response 200 (map_sum id Some (read_item item_id d), d)"
| "app cfg d now credential (Req_update_item item_id item_update) =
     with_current_user cfg d now credential
       (\<lambda>current_user. item_response 200 (update_item item_id item_update d now current_user))"
| "app cfg d now credential (Req_delete_item item_id) =
     with_current_user cfg d now credential
       (\<lambda>current_user. item_response 200 (delete_item item_id d current_user))"
| "app cfg d now credential (Req_login login_data) =
     (case login cfg login_data d now of
        Inl e \<Rightarrow> (Inl e, d)
      | Inr token \<Rightarrow> (Inr \<lparr>status_code = 200, body = TokenBody token\<rparr>, d))"

text \<open>The status line the client sees: the status of the response, the status an
  \<^verbatim>\<open>HTTPException\<close> carries, and 500 for an exception that nothing handles: main.py
  registers no exception handler, so that is every exception that is no
  \<^verbatim>\<open>HTTPException\<close>, the \<open>Conflict\<close> of the persistence layer among them.\<close>

fun http_status :: "response result \<Rightarrow> nat" where
  "http_status (Inr r) = status_code r"
| "http_status (Inl (HTTPException code dt hs)) = code"
| "http_status (Inl (NameError name)) = 500"
| "http_status (Inl ResponseValidationError) = 500"
| "http_status (Inl Conflict) = 500"

text \<open>A small store for the concrete checks: two users, of whom the first owns one
  item, and a key.\<close>

definition cfg0 :: config where
  "cfg0 = \<lparr>SECRET_KEY = ''k'', ACCESS_TOKEN_EXPIRE_MINUTES = 30\<rparr>"

definition alice :: user_row where
  "alice = \<lparr>u_id = 1, u_email = ''a@x.io'', u_username = ''alice'', u_full_name = None,
            u_hashed_password = PwHash ''pa'', u_is_active = True, u_created_at = 5,
            u_updated_at = None\<rparr>"

definition bob :: user_row where
  "bob = \<lparr>u_id = 2, u_email = ''b@x.io'', u_username = ''bob'', u_full_name = Some ''Bob'',
          u_hashed_password = PwHash ''pb'', u_is_active = True, u_created_at = 6,
          u_updated_at = None\<rparr>"

definition lamp :: item_row where
  "lamp = \<lparr>i_id = 1, i_title = ''Desk Lamp'', i_description = Some ''warm light'',
           i_price = Some 10, i_is_available = True, i_owner_id = 1, i_created_at = 7,
           i_updated_at = None\<rparr>"

definition db0 :: db where
  "db0 = \<lparr>db_users = [alice, bob], db_items = [lamp], db_next_user_id = 3, db_next_item_id = 2\<rparr>"

definition token_of :: "string \<Rightarrow> access_token" where
  "token_of username = Signed ''k'' username 1000"

definition no_update :: UserUpdate where
  "no_update = \<lparr>uu_email = None, uu_username = None, uu_full_name = None, uu_password = None\<rparr>"

definition no_item_update :: ItemUpdate where
  "no_item_update =
     \<lparr>iu_title = None, iu_description = None, iu_price = None, iu_is_available = None\<rparr>"

definition carol :: UserCreate where
  "carol = \<lparr>uc_email = ''c@x.io'', uc_username = ''carol'', uc_full_name = None,
            uc_password = ''pc''\<rparr>"

definition chair :: ItemCreate where
  "chair = \<lparr>ic_title = ''Chair'', ic_description = None, ic_price = None\<rparr>"

section \<open>Login\<close>

lemma login_failure_raises_NameError:
  "crud_authenticate_user d (lr_username login_data) (lr_password login_data) = None
   \<Longrightarrow> login cfg login_data d now = Inl (NameError ''status'')"
  by (simp add: login_def load_global_def main_globals_def)

lemma login_success_returns_bearer_token:
  "crud_authenticate_user d (lr_username login_data) (lr_password login_data) = Some user
   \<Longrightarrow> login cfg login_data d now
       = Inr \<lparr>access_token = Signed (SECRET_KEY cfg) (u_username user)
                                   (now + 60 * ACCESS_TOKEN_EXPIRE_MINUTES cfg),
              token_type = ''bearer''\<rparr>"
  by (simp add: login_def create_access_token_def timedelta_minutes_def)

text \<open>
  C1. A login with bad credentials is to fail with HTTP 401 and a Bearer challenge.
  The handler builds that exception from \<^verbatim>\<open>status.HTTP_401_UNAUTHORIZED\<close>, and main.py
  imports no \<^verbatim>\<open>status\<close>: with an unknown username, and with a known username and a
  wrong password, the request ends in a \<^verbatim>\<open>NameError\<close>, which the client sees as a
  server error 500, and no 401 is raised.
\<close>

theorem login_bad_credentials_NameError:
  "app cfg0 db0 10 None (Req_login \<lparr>lr_username = ''ghost'', lr_password = ''pa''\<rparr>)
     = (Inl (NameError ''status''), db0)
   \<and> app cfg0 db0 10 None (Req_login \<lparr>lr_username = ''alice'', lr_password = ''wrong''\<rparr>)
     = (Inl (NameError ''status''), db0)
   \<and> http_status (Inl (NameError ''status'')) = 500"
  by (simp add: login_def load_global_def main_globals_def crud_authenticate_user_def
      crud_get_user_by_username_def verify_password_def get_password_hash_def
      db0_def alice_def bob_def)

section \<open>Existence and authorization\<close>

lemma update_user_404:
  assumes "fst (update_user user_id user_update d now current_user) = Inl (HTTPException 404 UserNotFound [])"
  shows "u_id current_user = user_id \<and> crud_get_user d user_id = None"
proof (cases "u_id current_user = user_id")
  case False
  with assms show ?thesis by (simp add: update_user_def)
next
  case True
  show ?thesis
  proof (cases "crud_get_user d user_id")
    case None
    with True show ?thesis by simp
  next
    case (Some db_user)
    with True assms show ?thesis
      by (simp add: update_user_def crud_update_user_def split: if_splits)
  qed
qed

lemma delete_user_404:
  assumes "fst (delete_user user_id d current_user) = Inl (HTTPException 404 UserNotFound [])"
  shows "u_id current_user = user_id \<and> crud_get_user d user_id = None"
  using assms
  by (cases "crud_get_user d user_id")
     (simp_all add: delete_user_def crud_delete_user_def split: if_splits)

lemma update_item_403:
  "fst (update_item item_id item_update d now current_user) = Inl (HTTPException 403 InsufficientRights [])
   \<Longrightarrow> crud_get_item d item_id \<noteq> None"
  by (cases "crud_get_item d item_id") (simp_all add: update_item_def)

lemma delete_item_403:
  "fst (delete_item item_id d current_user) = Inl (HTTPException 403 InsufficientRights [])
   \<Longrightarrow> crud_get_item d item_id \<noteq> None"
  by (cases "crud_get_item d item_id") (simp_all add: delete_item_def)

text \<open>
  C2, as the code has it. In the item handlers the lookup comes first: a missing item
  is a 404 whoever the caller is, and a 403 is raised only for an item that exists. In
  the user handlers the comparison of the caller's id with the id of the path comes
  first: a caller with another id gets a 403 whether or not the target exists, and a
  404 is raised only when the caller's id equals the target id and the store has no
  such user.
\<close>

theorem existence_check_precedes_policy_for_items_only:
  "(crud_get_item d item_id = None \<longrightarrow>
      update_item item_id item_update d now current_user = (Inl (HTTPException 404 ItemNotFound []), d)
      \<and> delete_item item_id d current_user = (Inl (HTTPException 404 ItemNotFound []), d))
   \<and> (fst (update_item item_id item_update d now current_user) = Inl (HTTPException 403 InsufficientRights [])
        \<longrightarrow> crud_get_item d item_id \<noteq> None)
   \<and> (fst (delete_item item_id d current_user) = Inl (HTTPException 403 InsufficientRights [])
        \<longrightarrow> crud_get_item d item_id \<noteq> None)
   \<and> (u_id current_user \<noteq> user_id \<longrightarrow>
        update_user user_id user_update d now current_user = (Inl (HTTPException 403 InsufficientRights []), d)
        \<and> delete_user user_id d current_user = (Inl (HTTPException 403 InsufficientRights []), d))
   \<and> (fst (update_user user_id user_update d now current_user) = Inl (HTTPException 404 UserNotFound [])
        \<longrightarrow> u_id current_user = user_id \<and> crud_get_user d user_id = None)
   \<and> (fst (delete_user user_id d current_user) = Inl (HTTPException 404 UserNotFound [])
        \<longrightarrow> u_id current_user = user_id \<and> crud_get_user d user_id = None)"
proof -
  have items_missing: "crud_get_item d item_id = None \<longrightarrow>
      update_item item_id item_update d now current_user = (Inl (HTTPException 404 ItemNotFound []), d)
      \<and> delete_item item_id d current_user = (Inl (HTTPException 404 ItemNotFound []), d)"
    by (simp add: update_item_def delete_item_def)
  have users_other: "u_id current_user \<noteq> user_id \<longrightarrow>
        update_user user_id user_update d now current_user = (Inl (HTTPException 403 InsufficientRights []), d)
        \<and> delete_user user_id d current_user = (Inl (HTTPException 403 InsufficientRights []), d)"
    by (simp add: update_user_def delete_user_def)
  from items_missing users_other
    update_item_403 [of item_id item_update d now current_user]
    delete_item_403 [of item_id d current_user]
    update_user_404 [of user_id user_update d now current_user]
    delete_user_404 [of user_id d current_user]
  show ?thesis by (intro conjI impI) simp_all
qed

text \<open>
  C2 as stated fails for the user handlers: the store has no user 3, the caller is the
  authenticated user 1, and updating or deleting user 3 answers 403, not 404.
\<close>

theorem missing_user_other_caller_is_403:
  "crud_get_user db0 3 = None
   \<and> get_current_user cfg0 db0 10 (Some (token_of ''alice'')) = Inr alice
   \<and> app cfg0 db0 10 (Some (token_of ''alice'')) (Req_update_user 3 no_update)
       = (Inl (HTTPException 403 InsufficientRights []), db0)
   \<and> app cfg0 db0 10 (Some (token_of ''alice'')) (Req_delete_user 3)
       = (Inl (HTTPException 403 InsufficientRights []), db0)"
  by (simp add: with_current_user_def get_current_user_def crud_get_user_by_username_def
      crud_get_user_def update_user_def delete_user_def user_response_def
      token_of_def cfg0_def db0_def alice_def bob_def)



theorem existence_check_precedes_policy_witness:
  "crud_get_item db0 5 = None
   \<and> update_item 5 no_item_update db0 10 bob = (Inl (HTTPException 404 ItemNotFound []), db0)
   \<and> fst (update_item 1 no_item_update db0 10 bob) = Inl (HTTPException 403 InsufficientRights [])
   \<and> fst (delete_item 1 db0 bob) = Inl (HTTPException 403 InsufficientRights [])
   \<and> crud_get_item db0 1 \<noteq> None
   \<and> u_id alice \<noteq> 3
   \<and> update_user 3 no_update db0 10 alice = (Inl (HTTPException 403 InsufficientRights []), db0)
   \<and> fst (update_user 3 no_update db0 10 (alice\<lparr>u_id := 3\<rparr>)) = Inl (HTTPException 404 UserNotFound [])
   \<and> fst (delete_user 3 db0 (alice\<lparr>u_id := 3\<rparr>)) = Inl (HTTPException 404 UserNotFound [])
   \<and> crud_get_user db0 3 = None"
proof -
  have h1: "crud_get_item db0 5 = None"
    by (simp add: crud_get_item_def db0_def lamp_def)
  have h2: "fst (update_item 1 no_item_update db0 10 bob) = Inl (HTTPException 403 InsufficientRights [])"
    by (simp add: update_item_def crud_get_item_def db0_def lamp_def bob_def)
  have h3: "fst (delete_item 1 db0 bob) = Inl (HTTPException 403 InsufficientRights [])"
    by (simp add: delete_item_def crud_get_item_def db0_def lamp_def bob_def)
  have h4: "u_id alice \<noteq> 3" by (simp add: alice_def)
  have g: "crud_get_user db0 3 = None"
    by (simp add: crud_get_user_def db0_def alice_def bob_def)
  have h5: "fst (update_user 3 no_update db0 10 (alice\<lparr>u_id := 3\<rparr>)) = Inl (HTTPException 404 UserNotFound [])"
    by (simp add: update_user_def crud_update_user_def g)
  have h6: "fst (delete_user 3 db0 (alice\<lparr>u_id := 3\<rparr>)) = Inl (HTTPException 404 UserNotFound [])"
    by (simp add: delete_user_def crud_delete_user_def g)
  note a = existence_check_precedes_policy_for_items_only [of db0 5 no_item_update 10 bob 3 no_update]
  note b = existence_check_precedes_policy_for_items_only [of db0 1 no_item_update 10 bob 3 no_update]
  note c = existence_check_precedes_policy_for_items_only [of db0 1 no_item_update 10 alice 3 no_update]
  note e = existence_check_precedes_policy_for_items_only
             [of db0 1 no_item_update 10 "alice\<lparr>u_id := 3\<rparr>" 3 no_update]
  from a h1 have c1: "update_item 5 no_item_update db0 10 bob = (Inl (HTTPException 404 ItemNotFound []), db0)"
    by blast
  from b h2 have c2: "crud_get_item db0 1 \<noteq> None" by blast
  from c h4 have c3: "update_user 3 no_update db0 10 alice = (Inl (HTTPException 403 InsufficientRights []), db0)"
    by blast
  from e h5 have c4: "crud_get_user db0 3 = None" by blast
  from h1 c1 h2 h3 c2 h4 c3 h5 h6 c4 show ?thesis by blast
qed

section \<open>Registration\<close>

lemma get_user_by_email_None:
  "crud_get_user_by_email d email = None \<longleftrightarrow> email \<notin> u_email ` set (db_users d)"
  by (auto simp: crud_get_user_by_email_def find_None_iff)

lemma get_user_by_username_None:
  "crud_get_user_by_username d username = None \<longleftrightarrow> username \<notin> u_username ` set (db_users d)"
  by (auto simp: crud_get_user_by_username_def find_None_iff)

lemma create_user_email_exists:
  "uc_email user \<in> u_email ` set (db_users d)
   \<Longrightarrow> create_user user d now = (Inl (HTTPException 400 EmailRegistered []), d)"
  using get_user_by_email_None [of d "uc_email user"]
  by (cases "crud_get_user_by_email d (uc_email user)") (simp_all add: create_user_def)

lemma create_user_username_exists:
  "uc_email user \<notin> u_email ` set (db_users d)
   \<Longrightarrow> uc_username user \<in> u_username ` set (db_users d)
   \<Longrightarrow> create_user user d now = (Inl (HTTPException 400 UsernameTaken []), d)"
  using get_user_by_email_None [of d "uc_email user"]
        get_user_by_username_None [of d "uc_username user"]
  by (cases "crud_get_user_by_username d (uc_username user)") (simp_all add: create_user_def)

lemma create_user_fresh:
  "uc_email user \<notin> u_email ` set (db_users d)
   \<Longrightarrow> uc_username user \<notin> u_username ` set (db_users d)
   \<Longrightarrow> create_user user d now = (Inr (fst (crud_create_user d user now)), snd (crud_create_user d user now))"
  using get_user_by_email_None [of d "uc_email user"]
        get_user_by_username_None [of d "uc_username user"]
  by (simp add: create_user_def split: prod.splits)

lemma create_user_response_ignores_password:
  "fst (user_response code (create_user (user\<lparr>uc_password := p\<rparr>) d now))
   = fst (user_response code (create_user user d now))"
  by (simp add: user_response_def create_user_def crud_create_user_def to_User_def Let_def
      split: option.splits)

text \<open>
  C3. Registration answers 400 when a user with the given email exists, and leaves
  the store as it was; the email is looked up before the username, so the email's 400
  is the answer also when both are taken; with a fresh email and a taken username it
  answers the username's 400 and creates nothing; when neither is taken the user is
  appended to the store under the next id and returned with status 201. The response
  has no field for the password or its hash, and it is the same whatever the password
  of the request is.
\<close>

theorem register_checks_email_then_username:
  "(uc_email user \<in> u_email ` set (db_users d) \<longrightarrow>
      app cfg d now credential (Req_create_user user)
        = (Inl (HTTPException 400 EmailRegistered []), d))
   \<and> (uc_email user \<notin> u_email ` set (db_users d)
       \<and> uc_username user \<in> u_username ` set (db_users d) \<longrightarrow>
      app cfg d now credential (Req_create_user user)
        = (Inl (HTTPException 400 UsernameTaken []), d))
   \<and> (uc_email user \<notin> u_email ` set (db_users d)
       \<and> uc_username user \<notin> u_username ` set (db_users d) \<longrightarrow>
      app cfg d now credential (Req_create_user user)
        = (Inr \<lparr>status_code = 201,
                body = UserBody \<lparr>us_email = uc_email user, us_username = uc_username user,
                                 us_full_name = uc_full_name user, us_id = db_next_user_id d,
                                 us_is_active = True, us_created_at = now,
                                 us_updated_at = None\<rparr>\<rparr>,
           d\<lparr>db_users := db_users d @
                  [\<lparr>u_id = db_next_user_id d, u_email = uc_email user,
                    u_username = uc_username user, u_full_name = uc_full_name user,
                    u_hashed_password = get_password_hash (uc_password user),
                    u_is_active = True, u_created_at = now, u_updated_at = None\<rparr>],
              db_next_user_id := db_next_user_id d + 1\<rparr>))
   \<and> fst (app cfg d now credential (Req_create_user (user\<lparr>uc_password := p\<rparr>)))
       = fst (app cfg d now credential (Req_create_user user))"
proof (intro conjI impI)
  assume "uc_email user \<in> u_email ` set (db_users d)"
  then show "app cfg d now credential (Req_create_user user)
        = (Inl (HTTPException 400 EmailRegistered []), d)"
    by (simp add: create_user_email_exists user_response_def)
next
  assume "uc_email user \<notin> u_email ` set (db_users d)
       \<and> uc_username user \<in> u_username ` set (db_users d)"
  then show "app cfg d now credential (Req_create_user user)
        = (Inl (HTTPException 400 UsernameTaken []), d)"
    by (simp add: create_user_username_exists user_response_def)
next
  assume "uc_email user \<notin> u_email ` set (db_users d)
       \<and> uc_username user \<notin> u_username ` set (db_users d)"
  then show "app cfg d now credential (Req_create_user user)
        = (Inr \<lparr>status_code = 201,
                body = UserBody \<lparr>us_email = uc_email user, us_username = uc_username user,
                                 us_full_name = uc_full_name user, us_id = db_next_user_id d,
                                 us_is_active = True, us_created_at = now,
                                 us_updated_at = None\<rparr>\<rparr>,
           d\<lparr>db_users := db_users d @
                  [\<lparr>u_id = db_next_user_id d, u_email = uc_email user,
                    u_username = uc_username user, u_full_name = uc_full_name user,
                    u_hashed_password = get_password_hash (uc_password user),
                    u_is_active = True, u_created_at = now, u_updated_at = None\<rparr>],
              db_next_user_id := db_next_user_id d + 1\<rparr>)"
    by (simp add: create_user_fresh user_response_def crud_create_user_def to_User_def Let_def)
next
  show "fst (app cfg d now credential (Req_create_user (user\<lparr>uc_password := p\<rparr>)))
       = fst (app cfg d now credential (Req_create_user user))"
    by (simp add: create_user_response_ignores_password)
qed

theorem register_checks_email_then_username_witness:
  "uc_email (carol\<lparr>uc_email := ''a@x.io'', uc_username := ''bob''\<rparr>) \<in> u_email ` set (db_users db0)
   \<and> app cfg0 db0 10 None (Req_create_user (carol\<lparr>uc_email := ''a@x.io'', uc_username := ''bob''\<rparr>))
       = (Inl (HTTPException 400 EmailRegistered []), db0)
   \<and> uc_email (carol\<lparr>uc_username := ''bob''\<rparr>) \<notin> u_email ` set (db_users db0)
   \<and> uc_username (carol\<lparr>uc_username := ''bob''\<rparr>) \<in> u_username ` set (db_users db0)
   \<and> app cfg0 db0 10 None (Req_create_user (carol\<lparr>uc_username := ''bob''\<rparr>))
       = (Inl (HTTPException 400 UsernameTaken []), db0)
   \<and> uc_email carol \<notin> u_email ` set (db_users db0)
   \<and> uc_username carol \<notin> u_username ` set (db_users db0)
   \<and> http_status (fst (app cfg0 db0 10 None (Req_create_user carol))) = 201
   \<and> map u_id (db_users (snd (app cfg0 db0 10 None (Req_create_user carol)))) = [1, 2, 3]"
proof -
  have e1: "uc_email (carol\<lparr>uc_email := ''a@x.io'', uc_username := ''bob''\<rparr>) \<in> u_email ` set (db_users db0)"
    by (simp add: carol_def db0_def alice_def bob_def)
  have e2: "uc_email (carol\<lparr>uc_username := ''bob''\<rparr>) \<notin> u_email ` set (db_users db0)
            \<and> uc_username (carol\<lparr>uc_username := ''bob''\<rparr>) \<in> u_username ` set (db_users db0)"
    by (simp add: carol_def db0_def alice_def bob_def)
  have e3: "uc_email carol \<notin> u_email ` set (db_users db0)
            \<and> uc_username carol \<notin> u_username ` set (db_users db0)"
    by (simp add: carol_def db0_def alice_def bob_def)
  note a = register_checks_email_then_username
             [of "carol\<lparr>uc_email := ''a@x.io'', uc_username := ''bob''\<rparr>" db0 cfg0 10 None "''x''"]
  note b = register_checks_email_then_username [of "carol\<lparr>uc_username := ''bob''\<rparr>" db0 cfg0 10 None "''x''"]
  note c = register_checks_email_then_username [of carol db0 cfg0 10 None "''x''"]
  from a e1 have r1: "app cfg0 db0 10 None (Req_create_user (carol\<lparr>uc_email := ''a@x.io'', uc_username := ''bob''\<rparr>))
       = (Inl (HTTPException 400 EmailRegistered []), db0)" by blast
  from b e2 have r2: "app cfg0 db0 10 None (Req_create_user (carol\<lparr>uc_username := ''bob''\<rparr>))
       = (Inl (HTTPException 400 UsernameTaken []), db0)" by blast
  from c e3 have r3: "app cfg0 db0 10 None (Req_create_user carol)
        = (Inr \<lparr>status_code = 201,
                body = UserBody \<lparr>us_email = uc_email carol, us_username = uc_username carol,
                                 us_full_name = uc_full_name carol, us_id = db_next_user_id db0,
                                 us_is_active = True, us_created_at = 10,
                                 us_updated_at = None\<rparr>\<rparr>,
           db0\<lparr>db_users := db_users db0 @
                  [\<lparr>u_id = db_next_user_id db0, u_email = uc_email carol,
                    u_username = uc_username carol, u_full_name = uc_full_name carol,
                    u_hashed_password = get_password_hash (uc_password carol),
                    u_is_active = True, u_created_at = 10, u_updated_at = None\<rparr>],
              db_next_user_id := db_next_user_id db0 + 1\<rparr>)" by blast
  have r4: "http_status (fst (app cfg0 db0 10 None (Req_create_user carol))) = 201"
    by (simp only: r3 fst_conv http_status.simps response.simps)
  have r5: "map u_id (db_users (snd (app cfg0 db0 10 None (Req_create_user carol)))) = [1, 2, 3]"
    unfolding r3 by (simp add: db0_def alice_def bob_def)
  from e1 r1 e2 r2 e3 r4 r5 show ?thesis by blast
qed

section \<open>The authenticated callers of the sample store\<close>

lemma get_alice: "get_current_user cfg0 db0 10 (Some (token_of ''alice'')) = Inr alice"
  by (simp add: get_current_user_def crud_get_user_by_username_def token_of_def cfg0_def
      db0_def alice_def)

lemma get_bob: "get_current_user cfg0 db0 10 (Some (token_of ''bob'')) = Inr bob"
  by (simp add: get_current_user_def crud_get_user_by_username_def token_of_def cfg0_def
      db0_def alice_def bob_def)

section \<open>Updating a user\<close>

lemma taken_by_other_email:
  "other \<in> set (db_users d) \<Longrightarrow> u_id other \<noteq> user_id \<Longrightarrow> u_email other \<noteq> old
   \<Longrightarrow> taken_by_other d user_id u_email (Some (u_email other)) old"
  by (auto simp: taken_by_other_def list_ex_iff)

lemma taken_by_other_username:
  "other \<in> set (db_users d) \<Longrightarrow> u_id other \<noteq> user_id \<Longrightarrow> u_username other \<noteq> old
   \<Longrightarrow> taken_by_other d user_id u_username (Some (u_username other)) old"
  by (auto simp: taken_by_other_def list_ex_iff)

lemma crud_update_user_conflict:
  assumes "crud_get_user d user_id = Some db_user"
    and "other \<in> set (db_users d)" and "u_id other \<noteq> user_id"
    and "(uu_email user_update = Some (u_email other) \<and> u_email other \<noteq> u_email db_user)
         \<or> (uu_username user_update = Some (u_username other) \<and> u_username other \<noteq> u_username db_user)"
  shows "crud_update_user d user_id user_update now = (Inl Conflict, d)"
proof -
  from assms(4) have "taken_by_other d user_id u_email (uu_email user_update) (u_email db_user)
      \<or> taken_by_other d user_id u_username (uu_username user_update) (u_username db_user)"
    using taken_by_other_email [OF assms(2,3)] taken_by_other_username [OF assms(2,3)]
    by auto
  with assms(1) show ?thesis by (auto simp: crud_update_user_def)
qed

text \<open>
  C4. When the caller updates their own record and the update supplies an email, or
  a username, that differs from the caller's current one and belongs to another user
  of the store, the update fails with the conflict error and the store is left as it
  was: the check comes before any write. The handler of users.py has no branch for a
  conflict; the check is the one the spec gives \<^verbatim>\<open>crud.update_user\<close>, and the handler
  lets its failure through.
\<close>

theorem user_update_rechecks_uniqueness:
  assumes "get_current_user cfg d now credential = Inr current_user"
    and "u_id current_user = user_id"
    and "crud_get_user d user_id = Some db_user"
    and "other \<in> set (db_users d)" and "u_id other \<noteq> user_id"
    and "(uu_email user_update = Some (u_email other) \<and> u_email other \<noteq> u_email db_user)
         \<or> (uu_username user_update = Some (u_username other) \<and> u_username other \<noteq> u_username db_user)"
  shows "update_user user_id user_update d now current_user = (Inl Conflict, d)
         \<and> app cfg d now credential (Req_update_user user_id user_update) = (Inl Conflict, d)"
proof -
  have "crud_update_user d user_id user_update now = (Inl Conflict, d)"
    using assms(3-6) by (rule crud_update_user_conflict)
  with assms(2) have h: "update_user user_id user_update d now current_user = (Inl Conflict, d)"
    by (simp add: update_user_def)
  with assms(1) show ?thesis
    by (simp add: with_current_user_def user_response_def)
qed

theorem user_update_rechecks_uniqueness_witness:
  "get_current_user cfg0 db0 10 (Some (token_of ''alice'')) = Inr alice
   \<and> crud_get_user db0 1 = Some alice \<and> bob \<in> set (db_users db0) \<and> u_id bob \<noteq> 1
   \<and> u_email bob \<noteq> u_email alice
   \<and> app cfg0 db0 10 (Some (token_of ''alice''))
        (Req_update_user 1 (no_update\<lparr>uu_email := Some ''b@x.io''\<rparr>)) = (Inl Conflict, db0)"
proof -
  have h2: "u_id alice = 1" by (simp add: alice_def)
  have h3: "crud_get_user db0 1 = Some alice" by (simp add: crud_get_user_def db0_def alice_def)
  have h4: "bob \<in> set (db_users db0)" by (simp add: db0_def)
  have h5: "u_id bob \<noteq> 1" by (simp add: bob_def)
  have h6: "u_email bob \<noteq> u_email alice" by (simp add: alice_def bob_def)
  have h7: "uu_email (no_update\<lparr>uu_email := Some ''b@x.io''\<rparr>) = Some (u_email bob)"
    by (simp add: bob_def)
  from h6 h7 have h8: "(uu_email (no_update\<lparr>uu_email := Some ''b@x.io''\<rparr>) = Some (u_email bob)
        \<and> u_email bob \<noteq> u_email alice)
      \<or> (uu_username (no_update\<lparr>uu_email := Some ''b@x.io''\<rparr>) = Some (u_username bob)
        \<and> u_username bob \<noteq> u_username alice)" by blast
  from user_update_rechecks_uniqueness [OF get_alice h2 h3 h4 h5 h8] get_alice h3 h4 h5 h6
  show ?thesis by blast
qed

section \<open>Updating and creating an item\<close>

lemma map_update_first:
  "(\<And>x. f (g x) = f x) \<Longrightarrow> map f (update_first P g xs) = map f xs"
  by (induction xs) simp_all

text \<open>
  C5. When the owner updates an item, the request decides the title, the description,
  the price and the availability of the updated item and nothing else: each of the
  four is the value supplied, or the old one when none is supplied. The owner, the id
  and the creation time of the item are those it had, and no item of the store changes
  its owner, id or creation time; the users are untouched. The request type has no
  field for the owner. (The modification time is set to the time of the update, as
  the spec says of every update.)
\<close>

theorem item_update_changes_only_item_fields:
  assumes "crud_get_item d item_id = Some db_item"
    and "i_owner_id db_item = u_id current_user"
  shows "\<exists>new d'. update_item item_id item_update d now current_user = (Inr (Some new), d')
     \<and> new = db_item
         \<lparr>i_title := (case iu_title item_update of None \<Rightarrow> i_title db_item | Some v \<Rightarrow> v),
          i_description := (case iu_description item_update of
                              None \<Rightarrow> i_description db_item | Some v \<Rightarrow> Some v),
          i_price := (case iu_price item_update of None \<Rightarrow> i_price db_item | Some v \<Rightarrow> Some v),
          i_is_available := (case iu_is_available item_update of
                               None \<Rightarrow> i_is_available db_item | Some v \<Rightarrow> v),
          i_updated_at := Some now\<rparr>
     \<and> i_owner_id new = i_owner_id db_item \<and> i_id new = i_id db_item
     \<and> i_created_at new = i_created_at db_item
     \<and> map i_owner_id (db_items d') = map i_owner_id (db_items d)
     \<and> map i_id (db_items d') = map i_id (db_items d)
     \<and> map i_created_at (db_items d') = map i_created_at (db_items d)
     \<and> db_users d' = db_users d"
proof -
  let ?new = "apply_item_update item_update now db_item"
  let ?d' = "d\<lparr>db_items := update_first (\<lambda>i. i_id i = item_id)
                             (apply_item_update item_update now) (db_items d)\<rparr>"
  have run: "update_item item_id item_update d now current_user = (Inr (Some ?new), ?d')"
    using assms by (simp add: update_item_def crud_update_item_def)
  have owner: "\<And>x. i_owner_id (apply_item_update item_update now x) = i_owner_id x"
    and ident: "\<And>x. i_id (apply_item_update item_update now x) = i_id x"
    and created: "\<And>x. i_created_at (apply_item_update item_update now x) = i_created_at x"
    by (simp_all add: apply_item_update_def)
  have "map i_owner_id (db_items ?d') = map i_owner_id (db_items d)"
    "map i_id (db_items ?d') = map i_id (db_items d)"
    "map i_created_at (db_items ?d') = map i_created_at (db_items d)"
    by (simp_all add: map_update_first owner ident created)
  moreover have "db_users ?d' = db_users d" by simp
  moreover have "?new = db_item
         \<lparr>i_title := (case iu_title item_update of None \<Rightarrow> i_title db_item | Some v \<Rightarrow> v),
          i_description := (case iu_description item_update of
                              None \<Rightarrow> i_description db_item | Some v \<Rightarrow> Some v),
          i_price := (case iu_price item_update of None \<Rightarrow> i_price db_item | Some v \<Rightarrow> Some v),
          i_is_available := (case iu_is_available item_update of
                               None \<Rightarrow> i_is_available db_item | Some v \<Rightarrow> v),
          i_updated_at := Some now\<rparr>"
    by (simp add: apply_item_update_def)
  ultimately show ?thesis using run owner ident created by blast
qed

theorem item_update_changes_only_item_fields_witness:
  "crud_get_item db0 1 = Some lamp \<and> i_owner_id lamp = u_id alice
   \<and> (\<exists>new d'. update_item 1 (no_item_update\<lparr>iu_title := Some ''Lamp''\<rparr>) db0 10 alice
                  = (Inr (Some new), d')
        \<and> i_owner_id new = 1 \<and> i_id new = 1 \<and> i_created_at new = 7 \<and> i_title new = ''Lamp''
        \<and> map i_owner_id (db_items d') = [1])"
proof -
  have h1: "crud_get_item db0 1 = Some lamp" by (simp add: crud_get_item_def db0_def lamp_def)
  have h2: "i_owner_id lamp = u_id alice" by (simp add: lamp_def alice_def)
  from item_update_changes_only_item_fields
         [OF h1 h2, of "no_item_update\<lparr>iu_title := Some ''Lamp''\<rparr>" 10]
  obtain new d' where
    r: "update_item 1 (no_item_update\<lparr>iu_title := Some ''Lamp''\<rparr>) db0 10 alice = (Inr (Some new), d')"
    and n: "new = lamp\<lparr>i_title := ''Lamp'', i_description := i_description lamp,
                      i_price := i_price lamp, i_is_available := i_is_available lamp,
                      i_updated_at := Some 10\<rparr>"
    and o: "map i_owner_id (db_items d') = map i_owner_id (db_items db0)"
    by (auto simp: no_item_update_def)
  from n have f: "i_owner_id new = 1 \<and> i_id new = 1 \<and> i_created_at new = 7 \<and> i_title new = ''Lamp''"
    by (simp add: lamp_def)
  from o have g: "map i_owner_id (db_items d') = [1]" by (simp add: db0_def lamp_def)
  from r f g have "\<exists>new d'. update_item 1 (no_item_update\<lparr>iu_title := Some ''Lamp''\<rparr>) db0 10 alice
                  = (Inr (Some new), d')
        \<and> i_owner_id new = 1 \<and> i_id new = 1 \<and> i_created_at new = 7 \<and> i_title new = ''Lamp''
        \<and> map i_owner_id (db_items d') = [1]"
    by (intro exI [of _ new] exI [of _ d']) simp
  with h1 h2 show ?thesis by simp
qed

text \<open>
  C6. When an authenticated caller creates an item, the item that is stored and
  returned, with status 201, has the caller's id as its owner, whatever the request
  body is (the body has a title, a description and a price, and no owner), and it is
  available.
\<close>

theorem created_item_belongs_to_caller:
  assumes "get_current_user cfg d now credential = Inr current_user"
  shows "\<exists>db_item d'.
     app cfg d now credential (Req_create_item item)
       = (Inr \<lparr>status_code = 201, body = ItemBody (to_Item d' db_item)\<rparr>, d')
     \<and> db_item = \<lparr>i_id = db_next_item_id d, i_title = ic_title item,
                   i_description = ic_description item, i_price = ic_price item,
                   i_is_available = True, i_owner_id = u_id current_user,
                   i_created_at = now, i_updated_at = None\<rparr>
     \<and> d' = d\<lparr>db_items := db_items d @ [db_item], db_next_item_id := db_next_item_id d + 1\<rparr>
     \<and> it_owner_id (to_Item d' db_item) = u_id current_user
     \<and> it_is_available (to_Item d' db_item) = True"
  using assms
  by (simp add: with_current_user_def create_item_def crud_create_user_item_def
      item_response_def to_Item_def Let_def)

theorem created_item_belongs_to_caller_witness:
  "get_current_user cfg0 db0 10 (Some (token_of ''bob'')) = Inr bob
   \<and> (\<exists>db_item d'.
        app cfg0 db0 10 (Some (token_of ''bob'')) (Req_create_item chair)
          = (Inr \<lparr>status_code = 201, body = ItemBody (to_Item d' db_item)\<rparr>, d')
        \<and> i_owner_id db_item = 2 \<and> i_is_available db_item = True
        \<and> it_owner_id (to_Item d' db_item) = 2)"
proof -
  from created_item_belongs_to_caller [OF get_bob, of chair]
  obtain db_item d' where
    r: "app cfg0 db0 10 (Some (token_of ''bob'')) (Req_create_item chair)
          = (Inr \<lparr>status_code = 201, body = ItemBody (to_Item d' db_item)\<rparr>, d')"
    and i: "db_item = \<lparr>i_id = db_next_item_id db0, i_title = ic_title chair,
                   i_description = ic_description chair, i_price = ic_price chair,
                   i_is_available = True, i_owner_id = u_id bob,
                   i_created_at = 10, i_updated_at = None\<rparr>"
    and o: "it_owner_id (to_Item d' db_item) = u_id bob"
    by blast
  from i have f: "i_owner_id db_item = 2 \<and> i_is_available db_item = True" by (simp add: bob_def)
  from o have g: "it_owner_id (to_Item d' db_item) = 2" by (simp add: bob_def)
  from r f g have "\<exists>db_item d'.
        app cfg0 db0 10 (Some (token_of ''bob'')) (Req_create_item chair)
          = (Inr \<lparr>status_code = 201, body = ItemBody (to_Item d' db_item)\<rparr>, d')
        \<and> i_owner_id db_item = 2 \<and> i_is_available db_item = True
        \<and> it_owner_id (to_Item d' db_item) = 2"
    by (intro exI [of _ db_item] exI [of _ d']) simp
  with get_bob show ?thesis by simp
qed

section \<open>Public and protected routes\<close>













section \<open>Listing items\<close>












section \<open>The caller's own record\<close>

lemma current_user_in_store:
  assumes "get_current_user cfg d now credential = Inr current_user"
  shows "current_user \<in> set (db_users d)"
proof -
  from assms obtain username where "crud_get_user_by_username d username = Some current_user"
    by (auto simp: get_current_user_def split: option.splits)
  then show ?thesis
    by (auto simp: crud_get_user_by_username_def find_Some_iff)
qed

lemma current_user_exists:
  assumes "get_current_user cfg d now credential = Inr current_user"
  shows "crud_get_user d (u_id current_user) \<noteq> None"
  using current_user_in_store [OF assms]
  by (auto simp: crud_get_user_def find_None_iff)

lemma self_update_status:
  assumes "u_id current_user = user_id" and "crud_get_user d user_id = Some db_user"
  shows "http_status (fst (user_response 200 (update_user user_id user_update d now current_user)))
         \<in> {200, 500}"
  using assms by (simp add: update_user_def crud_update_user_def user_response_def)

lemma self_delete_status:
  assumes "u_id current_user = user_id" and "crud_get_user d user_id = Some db_user"
  shows "http_status (fst (user_response 200 (delete_user user_id d current_user))) = 200"
  using assms by (simp add: delete_user_def crud_delete_user_def user_response_def)

text \<open>
  C9. The identity of a request is a row of the store, found by the username of the
  token. So when the comparison of the caller's id with the id of the path passes in
  the update and delete handlers of users.py, a user with that id exists, and the
  branch that answers 404 after the comparison is not taken: within one request
  neither handler raises the 404, and the request is not answered with status 404.
\<close>

theorem not_found_unreachable_after_self_check:
  assumes "get_current_user cfg d now credential = Inr current_user"
    and "u_id current_user = user_id"
  shows "crud_get_user d user_id \<noteq> None
     \<and> fst (update_user user_id user_update d now current_user) \<noteq> Inl (HTTPException 404 UserNotFound [])
     \<and> fst (delete_user user_id d current_user) \<noteq> Inl (HTTPException 404 UserNotFound [])
     \<and> http_status (fst (app cfg d now credential (Req_update_user user_id user_update))) \<noteq> 404
     \<and> http_status (fst (app cfg d now credential (Req_delete_user user_id))) \<noteq> 404"
proof -
  from current_user_exists [OF assms(1)] assms(2)
  obtain db_user where g: "crud_get_user d user_id = Some db_user" by auto
  have u: "fst (update_user user_id user_update d now current_user) \<noteq> Inl (HTTPException 404 UserNotFound [])"
    using update_user_404 [of user_id user_update d now current_user] g by auto
  have dl: "fst (delete_user user_id d current_user) \<noteq> Inl (HTTPException 404 UserNotFound [])"
    using delete_user_404 [of user_id d current_user] g by auto
  have au: "http_status (fst (app cfg d now credential (Req_update_user user_id user_update))) \<noteq> 404"
    using self_update_status [OF assms(2) g, of user_update now] assms(1)
    by (auto simp: with_current_user_def)
  have ad: "http_status (fst (app cfg d now credential (Req_delete_user user_id))) \<noteq> 404"
    using self_delete_status [OF assms(2) g] assms(1)
    by (simp add: with_current_user_def)
  from g u dl au ad show ?thesis by simp
qed

theorem not_found_unreachable_after_self_check_witness:
  "get_current_user cfg0 db0 10 (Some (token_of ''bob'')) = Inr bob \<and> u_id bob = 2
   \<and> crud_get_user db0 2 \<noteq> None
   \<and> fst (update_user 2 no_update db0 10 bob) \<noteq> Inl (HTTPException 404 UserNotFound [])
   \<and> http_status (fst (app cfg0 db0 10 (Some (token_of ''bob'')) (Req_delete_user 2))) \<noteq> 404"
proof -
  have i: "u_id bob = 2" by (simp add: bob_def)
  from not_found_unreachable_after_self_check [OF get_bob i, of no_update] get_bob i
  show ?thesis by blast
qed

section \<open>Default pagination\<close>

text \<open>
  C10. The three list handlers take \<open>skip\<close> = 0 and \<open>limit\<close> = 100 when the request
  gives neither: the listing of users, the listing of items and the listing of the
  caller's items are then the first 100 rows, at most, of what they list.
\<close>

theorem list_defaults_are_0_and_100:
  "read_users None None d = crud_get_users d 0 100
   \<and> read_users None None d = take 100 (sort_key u_id (db_users d))
   \<and> length (read_users None None d) \<le> 100
   \<and> read_items None None search d = crud_get_items d 0 100 search
   \<and> read_items None None search d
       = take 100 (filter (search_matches search) (sort_key i_id (db_items d)))
   \<and> length (read_items None None search d) \<le> 100
   \<and> read_user_items None None d current_user = crud_get_user_items d (u_id current_user) 0 100
   \<and> read_user_items None None d current_user
       = take 100 (filter (\<lambda>i. i_owner_id i = u_id current_user) (sort_key i_id (db_items d)))
   \<and> length (read_user_items None None d current_user) \<le> 100"
  by (simp add: read_users_def read_items_def read_user_items_def crud_get_users_def
      crud_get_items_def crud_get_user_items_def paginate_def)

end
